theory Spec2Isabelle
  imports Main
begin

section \<open>Go values, errors and the Kubernetes objects the resource reads\<close>

text \<open>
  A Go \<open>error\<close> value. The resource distinguishes a \<open>*errors.StatusError\<close> of the API
  machinery (by type assertion) from every other error; a status error carries the reason,
  the HTTP code and the message of its status. \<open>Errorf\<close> is an error built by
  \<open>fmt.Errorf\<close>; \<open>OtherError\<close> is any other error value the client library hands back.
  A nil error is \<open>None\<close> of \<open>go_error option\<close>.
\<close>

datatype go_error =
    StatusError string nat string
  | Errorf string
  | OtherError string

fun Error :: "go_error \<Rightarrow> string" where
  "Error (StatusError reason code message) = message"
| "Error (Errorf message) = message"
| "Error (OtherError message) = message"

text \<open>An \<open>interface{}\<close> value as the configuration store returns it.\<close>

datatype iface = INil | IString string | IBool bool | IList "iface list"

text \<open>\<open>v.(string)\<close> in its two-valued form: the zero value when \<open>v\<close> holds no string.\<close>

definition asString :: "iface \<Rightarrow> string" where
  "asString v = (case v of IString s \<Rightarrow> s | _ \<Rightarrow> [])"

text \<open>
  \<open>strconv.Atoi\<close> on a 64-bit platform: an optional sign, then one or more decimal digits,
  and a value that fits \<open>int\<close>. \<open>None\<close> stands for a non-nil error (the callers drop the
  error's contents and keep only whether there was one).
\<close>

fun digits :: "int \<Rightarrow> string \<Rightarrow> int option" where
  "digits n [] = Some n"
| "digits n (ch # s) =
     (let v = (of_char ch :: int) in
      if 48 \<le> v \<and> v \<le> 57 then digits (n * 10 + (v - 48)) s else None)"

definition Atoi :: "string \<Rightarrow> int option" where
  "Atoi s0 =
     (let neg = (s0 \<noteq> [] \<and> hd s0 = CHR ''-'');
          s = (if s0 \<noteq> [] \<and> (hd s0 = CHR ''-'' \<or> hd s0 = CHR ''+'') then tl s0 else s0)
      in if s = [] then None
         else case digits 0 s of
                None \<Rightarrow> None
              | Some un \<Rightarrow>
                  (let n = (if neg then - un else un)
                   in if n < - (2 ^ 63) \<or> 2 ^ 63 - 1 < n then None else Some n))"

text \<open>The parts of a \<open>batchv1.Job\<close> that this resource reads.\<close>

type_synonym labels = "(string \<times> string) list"

record ObjectMeta =
  Name :: string
  Namespace :: string
  Labels :: labels

record LabelSelector =
  MatchLabels :: labels

record JobSpec =
  Selector :: "LabelSelector option"
  TTLSecondsAfterFinished :: "int option"

record JobCondition =
  Type :: string
  Status :: string

record JobStatus =
  Conditions :: "JobCondition list"

record Job =
  objectMeta :: ObjectMeta
  spec :: JobSpec
  status :: JobStatus

definition ConditionTrue :: string where
  "ConditionTrue = ''True''"

definition JobComplete :: string where
  "JobComplete = ''Complete''"

definition JobFailed :: string where
  "JobFailed = ''Failed''"

section \<open>The remote object store\<close>

text \<open>
  \<open>conn.BatchV1().Jobs(namespace)\<close>: each request takes the state of the remote store and
  gives the answer and the store's next state. The world a lifecycle function runs in is
  that state together with the list of requests sent so far.
\<close>

record 's Clientset =
  Jobs_Get :: "string \<Rightarrow> string \<Rightarrow> 's \<Rightarrow> (go_error + Job) \<times> 's"
  Jobs_Patch :: "string \<Rightarrow> string \<Rightarrow> string \<Rightarrow> 's \<Rightarrow> (go_error + Job) \<times> 's"
  Jobs_Delete :: "string \<Rightarrow> string \<Rightarrow> 's \<Rightarrow> go_error option \<times> 's"

datatype request =
    GetRequest string string
  | PatchRequest string string string
  | DeleteRequest string string

record 's world =
  store :: 's
  requests :: "request list"

definition Get :: "'s Clientset \<Rightarrow> string \<Rightarrow> string \<Rightarrow> 's world \<Rightarrow> (go_error + Job) \<times> 's world" where
  "Get conn namespace name w =
     (let (r, s) = Jobs_Get conn namespace name (store w)
      in (r, \<lparr>store = s, requests = requests w @ [GetRequest namespace name]\<rparr>))"

definition Patch :: "'s Clientset \<Rightarrow> string \<Rightarrow> string \<Rightarrow> string \<Rightarrow> 's world \<Rightarrow> (go_error + Job) \<times> 's world" where
  "Patch conn namespace name data w =
     (let (r, s) = Jobs_Patch conn namespace name data (store w)
      in (r, \<lparr>store = s, requests = requests w @ [PatchRequest namespace name data]\<rparr>))"

definition Delete :: "'s Clientset \<Rightarrow> string \<Rightarrow> string \<Rightarrow> 's world \<Rightarrow> go_error option \<times> 's world" where
  "Delete conn namespace name w =
     (let (r, s) = Jobs_Delete conn namespace name (store w)
      in (r, \<lparr>store = s, requests = requests w @ [DeleteRequest namespace name]\<rparr>))"

text \<open>\<open>meta.(KubeClientsets)\<close>: \<open>MainClientset()\<close> gives the client or an error.\<close>

record 's KubeClientsets =
  MainClientset :: "go_error + 's Clientset"

section \<open>The configuration store and diagnostics\<close>

text \<open>
  A \<open>schema.ResourceData\<close>: the recorded identifier and what \<open>Get\<close>, \<open>GetOk\<close>,
  \<open>HasChange\<close> and \<open>Timeout\<close> answer for a key. \<open>SetId\<close> is an update of \<open>dataId\<close>.
\<close>

record ResourceData =
  dataId :: string
  dataGet :: "string \<Rightarrow> iface"
  dataGetOk :: "string \<Rightarrow> iface \<times> bool"
  dataHasChange :: "string \<Rightarrow> bool"
  dataTimeout :: "string \<Rightarrow> nat"

definition TimeoutUpdate :: string where
  "TimeoutUpdate = ''update''"

definition TimeoutDelete :: string where
  "TimeoutDelete = ''delete''"

text \<open>
  \<open>diag.Diagnostics\<close>: every diagnostic this file builds has error severity and a summary.
  Both \<open>nil\<close> and \<open>diag.Diagnostics{}\<close> are the empty list.
\<close>

datatype Diagnostic = ErrorDiagnostic string

type_synonym Diagnostics = "Diagnostic list"

definition diag_Errorf :: "string \<Rightarrow> Diagnostics" where
  "diag_Errorf summary = [ErrorDiagnostic summary]"

definition diag_FromErr :: "go_error \<Rightarrow> Diagnostics" where
  "diag_FromErr err = [ErrorDiagnostic (Error err)]"

text \<open>A function either returns or panics (a failed type assertion, a nil dereference).\<close>

datatype 'a outcome = Returned 'a | Panicked

text \<open>\<open>retry.RetryError\<close>; a \<open>RetryFunc\<close> gives \<open>None\<close> (nil) when it is done.\<close>

record RetryError =
  Err :: go_error
  Retryable :: bool

definition RetryableError :: "go_error \<Rightarrow> RetryError" where
  "RetryableError err = \<lparr>Err = err, Retryable = True\<rparr>"

definition NonRetryableError :: "go_error \<Rightarrow> RetryError" where
  "NonRetryableError err = \<lparr>Err = err, Retryable = False\<rparr>"

type_synonym PatchOperations = "(string \<times> string \<times> string) list"

section \<open>Helpers of the provider and its libraries that live outside this file\<close>

text \<open>
  \<open>IsNotFound\<close> of the API machinery's error package, \<open>retry.RetryContext\<close> and
  \<open>ResourceData.Set\<close> of the plugin SDK, and the provider's own \<open>idParts\<close>, \<open>buildId\<close>,
  patch builders and flatteners are taken as parameters: every theorem below holds for each
  choice of them.
\<close>

record 's helpers =
  IsNotFound :: "go_error \<Rightarrow> bool"
  idParts :: "string \<Rightarrow> go_error + (string \<times> string)"
  buildId :: "ObjectMeta \<Rightarrow> string"
  patchMetadata :: "string \<Rightarrow> string \<Rightarrow> ResourceData \<Rightarrow> PatchOperations"
  patchJobV1Spec :: "string \<Rightarrow> string \<Rightarrow> ResourceData \<Rightarrow> PatchOperations"
  MarshalJSON :: "PatchOperations \<Rightarrow> go_error + string"
  removeGeneratedLabels :: "labels \<Rightarrow> labels"
  flattenMetadata :: "ObjectMeta \<Rightarrow> ResourceData \<Rightarrow> iface"
  flattenJobV1Spec :: "JobSpec \<Rightarrow> ResourceData \<Rightarrow> go_error + iface"
  dataSet :: "string \<Rightarrow> iface \<Rightarrow> ResourceData \<Rightarrow> go_error option \<times> ResourceData"
  RetryContext :: "nat \<Rightarrow> ('s world \<Rightarrow> RetryError option \<times> 's world) \<Rightarrow> 's world
                     \<Rightarrow> go_error option \<times> 's world"

text \<open>
  \<open>statusErr, ok := err.(*errors.StatusError); ok && errors.IsNotFound(statusErr)\<close>
\<close>

definition isStatusNotFound :: "'s helpers \<Rightarrow> go_error \<Rightarrow> bool" where
  "isStatusNotFound h err =
     (case err of StatusError reason code message \<Rightarrow> IsNotFound h err | _ \<Rightarrow> False)"

section \<open>The diff rule\<close>

text \<open>
  A \<open>schema.ResourceDiff\<close>: the recorded identifier, the old and new value of each key, and
  the calls of \<open>ForceNew\<close> and \<open>Clear\<close> made on it, in order (the rule drops what those two
  calls return).
\<close>

datatype diff_call = ForceNewCall string | ClearCall string

record ResourceDiff =
  diffId :: string
  GetChange :: "string \<Rightarrow> iface \<times> iface"
  calls :: "diff_call list"

definition ForceNew :: "string \<Rightarrow> ResourceDiff \<Rightarrow> ResourceDiff" where
  "ForceNew key d = d\<lparr>calls := calls d @ [ForceNewCall key]\<rparr>"

definition Clear :: "string \<Rightarrow> ResourceDiff \<Rightarrow> ResourceDiff" where
  "Clear key d = d\<lparr>calls := calls d @ [ClearCall key]\<rparr>"

definition ttl_key :: string where
  "ttl_key = ''spec.0.ttl_seconds_after_finished''"

definition resourceKubernetesJobV1CustomizeDiff ::
  "'s helpers \<Rightarrow> ResourceDiff \<Rightarrow> 's KubeClientsets \<Rightarrow> 's world
     \<Rightarrow> go_error option \<times> ResourceDiff \<times> 's world" where
  "resourceKubernetesJobV1CustomizeDiff h d meta w =
     (if diffId d = [] then (None, d, w)
      else
        let (oldTTLRaw, newTTLRaw) = GetChange d ttl_key;
            oldTTLStr = (if oldTTLRaw \<noteq> INil then asString oldTTLRaw else []);
            newTTLStr = (if newTTLRaw \<noteq> INil then asString newTTLRaw else []);
            oldTTLInt = (case Atoi oldTTLStr of Some n \<Rightarrow> n | None \<Rightarrow> 0);
            newTTLInt = (case Atoi newTTLStr of Some n \<Rightarrow> n | None \<Rightarrow> 0)
        in case MainClientset meta of
             Inl err \<Rightarrow> (Some err, d, w)
           | Inr conn \<Rightarrow>
               (case idParts h (diffId d) of
                  Inl err \<Rightarrow> (Some err, d, w)
                | Inr (namespace, name) \<Rightarrow>
                    (case Get conn namespace name w of
                       (Inl err, w') \<Rightarrow>
                         if IsNotFound h err then
                           if 0 \<le> oldTTLInt then
                             if oldTTLInt \<noteq> newTTLInt then (None, ForceNew ttl_key d, w')
                             else (None, Clear ''metadata'' (Clear ''spec'' d), w')
                           else (None, d, w')
                         else (Some err, d, w')
                     | (Inr job, w') \<Rightarrow>
                         if oldTTLInt \<noteq> newTTLInt then (None, ForceNew ttl_key d, w')
                         else (None, d, w'))))"

section \<open>The completion poller\<close>

text \<open>The loop over \<open>job.Status.Conditions\<close>, with the return that follows it.\<close>

fun conditionsLoop :: "string \<Rightarrow> string \<Rightarrow> JobCondition list \<Rightarrow> RetryError option" where
  "conditionsLoop ns name [] =
     Some (RetryableError (Errorf (''job: '' @ ns @ ''/'' @ name @ '' is not in complete state'')))"
| "conditionsLoop ns name (c # cs) =
     (if Status c = ConditionTrue then
        if Type c = JobComplete then None
        else if Type c = JobFailed then
          Some (NonRetryableError (Errorf (''job: '' @ ns @ ''/'' @ name @ '' is in failed state'')))
        else conditionsLoop ns name cs
      else conditionsLoop ns name cs)"

definition retryUntilJobV1IsFinished ::
  "'s helpers \<Rightarrow> 's Clientset \<Rightarrow> string \<Rightarrow> string \<Rightarrow> 's world \<Rightarrow> RetryError option \<times> 's world" where
  "retryUntilJobV1IsFinished h conn ns name w =
     (case Get conn ns name w of
        (Inl err, w') \<Rightarrow>
          if isStatusNotFound h err then (None, w') else (Some (NonRetryableError err), w')
      | (Inr job, w') \<Rightarrow> (conditionsLoop ns name (Conditions (status job)), w'))"

section \<open>Exists, Read, Update and Delete\<close>

definition resourceKubernetesJobV1Exists ::
  "'s helpers \<Rightarrow> ResourceData \<Rightarrow> 's KubeClientsets \<Rightarrow> 's world
     \<Rightarrow> (bool \<times> go_error option) \<times> 's world" where
  "resourceKubernetesJobV1Exists h d meta w =
     (case MainClientset meta of
        Inl err \<Rightarrow> ((False, Some err), w)
      | Inr conn \<Rightarrow>
          (case idParts h (dataId d) of
             Inl err \<Rightarrow> ((False, Some err), w)
           | Inr (namespace, name) \<Rightarrow>
               (case Get conn namespace name w of
                  (Inl err, w') \<Rightarrow>
                    if isStatusNotFound h err then ((False, None), w')
                    else ((True, Some err), w')
                | (Inr job, w') \<Rightarrow> ((True, None), w'))))"

definition resourceKubernetesJobV1Read ::
  "'s helpers \<Rightarrow> ResourceData \<Rightarrow> 's KubeClientsets \<Rightarrow> 's world
     \<Rightarrow> Diagnostics outcome \<times> ResourceData \<times> 's world" where
  "resourceKubernetesJobV1Read h d meta w =
     (case resourceKubernetesJobV1Exists h d meta w of
        ((exists, Some err), w1) \<Rightarrow> (Returned (diag_FromErr err), d, w1)
      | ((exists, None), w1) \<Rightarrow>
          if \<not> exists then
            (case dataGetOk d ttl_key of
               (ttl, True) \<Rightarrow> (Returned [], d, w1)
             | (ttl, False) \<Rightarrow> (Returned [], d\<lparr>dataId := []\<rparr>, w1))
          else
            (case MainClientset meta of
               Inl err \<Rightarrow> (Returned (diag_FromErr err), d, w1)
             | Inr conn \<Rightarrow>
                 (case idParts h (dataId d) of
                    Inl err \<Rightarrow> (Returned (diag_FromErr err), d, w1)
                  | Inr (namespace, name) \<Rightarrow>
                      (case Get conn namespace name w1 of
                         (Inl err, w2) \<Rightarrow>
                           (Returned (diag_Errorf (''Failed to read Job! API error: '' @ Error err)), d, w2)
                       | (Inr job, w2) \<Rightarrow>
                           (case (if \<not> snd (dataGetOk d ''spec.0.manual_selector'') then
                                    (case Selector (spec job) of
                                       None \<Rightarrow> None
                                     | Some sel \<Rightarrow>
                                         Some (job\<lparr>objectMeta := (objectMeta job)
                                                      \<lparr>Labels := removeGeneratedLabels h (Labels (objectMeta job))\<rparr>,
                                                    spec := (spec job)
                                                      \<lparr>Selector := Some (sel
                                                        \<lparr>MatchLabels := removeGeneratedLabels h (MatchLabels sel)\<rparr>)\<rparr>\<rparr>))
                                  else Some job) of
                              None \<Rightarrow> (Panicked, d, w2)
                            | Some job' \<Rightarrow>
                                (case dataSet h ''metadata'' (flattenMetadata h (objectMeta job') d) d of
                                   (Some err, d1) \<Rightarrow> (Returned (diag_FromErr err), d1, w2)
                                 | (None, d1) \<Rightarrow>
                                     (case flattenJobV1Spec h (spec job') d1 of
                                        Inl err \<Rightarrow> (Returned (diag_FromErr err), d1, w2)
                                      | Inr jobSpec \<Rightarrow>
                                          (case dataSet h ''spec'' jobSpec d1 of
                                             (Some err, d2) \<Rightarrow> (Returned (diag_FromErr err), d2, w2)
                                           | (None, d2) \<Rightarrow> (Returned [], d2, w2)))))))))"

definition resourceKubernetesJobV1Update ::
  "'s helpers \<Rightarrow> ResourceData \<Rightarrow> 's KubeClientsets \<Rightarrow> 's world
     \<Rightarrow> Diagnostics outcome \<times> ResourceData \<times> 's world" where
  "resourceKubernetesJobV1Update h d meta w =
     (case MainClientset meta of
        Inl err \<Rightarrow> (Returned (diag_FromErr err), d, w)
      | Inr conn \<Rightarrow>
          (case idParts h (dataId d) of
             Inl err \<Rightarrow> (Returned (diag_FromErr err), d, w)
           | Inr (namespace, name) \<Rightarrow>
               (case Get conn namespace name w of
                  (Inl err, w1) \<Rightarrow>
                    if IsNotFound h err then
                      let ttlAttr = dataGet d ttl_key;
                          ttlStr = asString ttlAttr;
                          ttlInt = (case Atoi ttlStr of Some n \<Rightarrow> n | None \<Rightarrow> 0)
                      in if 0 \<le> ttlInt then (Returned [], d, w1)
                         else (Returned (diag_Errorf (''Job '' @ dataId d @
                                 '' not found; cannot update because it has been deleted'')), d, w1)
                    else (Returned (diag_Errorf (''Error retrieving Job: '' @ Error err)), d, w1)
                | (Inr job, w1) \<Rightarrow>
                    (let ops = patchMetadata h ''metadata.0.'' ''/metadata/'' d;
                         ops = (if dataHasChange d ''spec''
                                then ops @ patchJobV1Spec h ''/spec'' ''spec.0.'' d else ops)
                     in case MarshalJSON h ops of
                          Inl err \<Rightarrow>
                            (Returned (diag_Errorf (''Failed to marshal update operations: '' @ Error err)), d, w1)
                        | Inr data \<Rightarrow>
                            (case Patch conn namespace name data w1 of
                               (Inl err, w2) \<Rightarrow>
                                 (Returned (diag_Errorf (''Failed to update Job! API error: '' @ Error err)), d, w2)
                             | (Inr out, w2) \<Rightarrow>
                                 (let d' = d\<lparr>dataId := buildId h (objectMeta out)\<rparr>
                                  in case dataGet d' ''wait_for_completion'' of
                                       IBool wait \<Rightarrow>
                                         if wait then
                                           (case RetryContext h (dataTimeout d' TimeoutUpdate)
                                                   (retryUntilJobV1IsFinished h conn namespace name) w2 of
                                              (Some err, w3) \<Rightarrow> (Returned (diag_FromErr err), d', w3)
                                            | (None, w3) \<Rightarrow> resourceKubernetesJobV1Read h d' meta w3)
                                         else resourceKubernetesJobV1Read h d' meta w2
                                     | _ \<Rightarrow> (Panicked, d', w2)))))))"

text \<open>The function that Delete hands to \<open>RetryContext\<close>: wait until the job is gone.\<close>

definition deleteRetryFunc ::
  "'s helpers \<Rightarrow> 's Clientset \<Rightarrow> string \<Rightarrow> string \<Rightarrow> 's world \<Rightarrow> RetryError option \<times> 's world" where
  "deleteRetryFunc h conn namespace name w =
     (case Get conn namespace name w of
        (Inl err, w') \<Rightarrow>
          if isStatusNotFound h err then (None, w') else (Some (NonRetryableError err), w')
      | (Inr job, w') \<Rightarrow> (Some (RetryableError (Errorf (''Job '' @ name @ '' still exists''))), w'))"

definition resourceKubernetesJobV1Delete ::
  "'s helpers \<Rightarrow> ResourceData \<Rightarrow> 's KubeClientsets \<Rightarrow> 's world
     \<Rightarrow> Diagnostics \<times> ResourceData \<times> 's world" where
  "resourceKubernetesJobV1Delete h d meta w =
     (case MainClientset meta of
        Inl err \<Rightarrow> (diag_FromErr err, d, w)
      | Inr conn \<Rightarrow>
          (case idParts h (dataId d) of
             Inl err \<Rightarrow> (diag_FromErr err, d, w)
           | Inr (namespace, name) \<Rightarrow>
               (case Delete conn namespace name w of
                  (Some err, w1) \<Rightarrow>
                    if isStatusNotFound h err then ([], d, w1)
                    else (diag_Errorf (''Failed to delete Job! API error: '' @ Error err), d, w1)
                | (None, w1) \<Rightarrow>
                    (case RetryContext h (dataTimeout d TimeoutDelete)
                            (deleteRetryFunc h conn namespace name) w1 of
                       (Some err, w2) \<Rightarrow> (diag_FromErr err, d, w2)
                     | (None, w2) \<Rightarrow> ([], d\<lparr>dataId := []\<rparr>, w2)))))"

section \<open>The words of the specification\<close>

text \<open>
  The TTL value the rule compares: the string under the key, parsed as an integer, and 0
  when the value is absent, is no string or does not parse.
\<close>

definition ttlInt :: "iface \<Rightarrow> int" where
  "ttlInt raw = (case Atoi (asString raw) of Some n \<Rightarrow> n | None \<Rightarrow> 0)"

text \<open>
  The poller's attempt on a fetched job, as the specification words it: only the conditions
  whose status is true are looked at, in list order, and the first of them whose type is
  \<open>Complete\<close> or \<open>Failed\<close> decides; when there is none, the attempt asks for a retry.
\<close>

definition attemptOutcome_spec :: "string \<Rightarrow> string \<Rightarrow> JobCondition list \<Rightarrow> RetryError option" where
  "attemptOutcome_spec ns name cs =
     (case find (\<lambda>c. Type c = JobComplete \<or> Type c = JobFailed)
             (filter (\<lambda>c. Status c = ConditionTrue) cs) of
        None \<Rightarrow>
          Some (RetryableError (Errorf (''job: '' @ ns @ ''/'' @ name @ '' is not in complete state'')))
      | Some c \<Rightarrow>
          if Type c = JobComplete then None
          else Some (NonRetryableError (Errorf (''job: '' @ ns @ ''/'' @ name @ '' is in failed state''))))"




section \<open>A sample environment: an in-memory store and simple helpers\<close>

text \<open>
  The concrete inputs on which the theorems below are instantiated: a store that keeps jobs
  in an association list and answers a request for a missing job with a \<open>NotFound\<close> status
  error, identifiers of the form \<open>namespace/name\<close>, and a retry loop bounded by a number of
  attempts.
\<close>

type_synonym jobs = "((string \<times> string) \<times> Job) list"

definition notFound :: go_error where
  "notFound = StatusError ''NotFound'' 404 ''jobs.batch not found''"

definition memoryClientset :: "jobs Clientset" where
  "memoryClientset =
     \<lparr>Jobs_Get = (\<lambda>ns name s. case map_of s (ns, name) of
                     None \<Rightarrow> (Inl notFound, s) | Some job \<Rightarrow> (Inr job, s)),
      Jobs_Patch = (\<lambda>ns name data s. case map_of s (ns, name) of
                     None \<Rightarrow> (Inl notFound, s) | Some job \<Rightarrow> (Inr job, s)),
      Jobs_Delete = (\<lambda>ns name s. case map_of s (ns, name) of
                     None \<Rightarrow> (Some notFound, s)
                   | Some job \<Rightarrow> (None, filter (\<lambda>e. fst e \<noteq> (ns, name)) s))\<rparr>"

definition sampleMeta :: "jobs KubeClientsets" where
  "sampleMeta = \<lparr>MainClientset = Inr memoryClientset\<rparr>"

fun sampleRetry :: "nat \<Rightarrow> ('w \<Rightarrow> RetryError option \<times> 'w) \<Rightarrow> 'w \<Rightarrow> go_error option \<times> 'w" where
  "sampleRetry 0 f w = (Some (Errorf ''timeout''), w)"
| "sampleRetry (Suc n) f w =
     (case f w of
        (None, w') \<Rightarrow> (None, w')
      | (Some e, w') \<Rightarrow> if Retryable e then sampleRetry n f w' else (Some (Err e), w'))"

definition sampleIdParts :: "string \<Rightarrow> go_error + (string \<times> string)" where
  "sampleIdParts s =
     (let ns = takeWhile (\<lambda>c. c \<noteq> CHR ''/'') s;
          rest = dropWhile (\<lambda>c. c \<noteq> CHR ''/'') s
      in if rest = [] \<or> CHR ''/'' \<in> set (tl rest) then Inl (Errorf ''Unexpected ID format'')
         else Inr (ns, tl rest))"

definition sampleHelpers :: "jobs helpers" where
  "sampleHelpers =
     \<lparr>IsNotFound = (\<lambda>err. case err of StatusError reason code message \<Rightarrow> reason = ''NotFound''
                                   | _ \<Rightarrow> False),
      idParts = sampleIdParts,
      buildId = (\<lambda>m. Namespace m @ ''/'' @ Name m),
      patchMetadata = (\<lambda>keyPrefix pathPrefix d. []),
      patchJobV1Spec = (\<lambda>pathPrefix prefix d. []),
      MarshalJSON = (\<lambda>ops. Inr ''[]''),
      removeGeneratedLabels = (\<lambda>ls. ls),
      flattenMetadata = (\<lambda>m d. IList []),
      flattenJobV1Spec = (\<lambda>s d. Inr (IList [])),
      dataSet = (\<lambda>key v d. (None, d)),
      RetryContext = sampleRetry\<rparr>"

definition sampleJob :: "JobCondition list \<Rightarrow> Job" where
  "sampleJob cs =
     \<lparr>objectMeta = \<lparr>Name = ''pi'', Namespace = ''default'', Labels = []\<rparr>,
      spec = \<lparr>Selector = None, TTLSecondsAfterFinished = None\<rparr>,
      status = \<lparr>Conditions = cs\<rparr>\<rparr>"

definition emptyWorld :: "jobs world" where
  "emptyWorld = \<lparr>store = [], requests = []\<rparr>"

definition worldWith :: "Job \<Rightarrow> jobs world" where
  "worldWith job = \<lparr>store = [((''default'', ''pi''), job)], requests = []\<rparr>"

definition sampleDiff :: "iface \<Rightarrow> iface \<Rightarrow> ResourceDiff" where
  "sampleDiff old new =
     \<lparr>diffId = ''default/pi'',
      GetChange = (\<lambda>key. if key = ttl_key then (old, new) else (INil, INil)),
      calls = []\<rparr>"

definition sampleData :: "iface \<Rightarrow> ResourceData" where
  "sampleData ttl =
     \<lparr>dataId = ''default/pi'',
      dataGet = (\<lambda>key. if key = ttl_key then ttl
                        else if key = ''wait_for_completion'' then IBool True else INil),
      dataGetOk = (\<lambda>key. if key = ttl_key then (ttl, ttl \<noteq> INil \<and> ttl \<noteq> IString [])
                          else (INil, False)),
      dataHasChange = (\<lambda>key. False),
      dataTimeout = (\<lambda>key. 60)\<rparr>"

text \<open>A store that cannot be reached: every request fails with the given error.\<close>

definition failingClientset :: "go_error \<Rightarrow> jobs Clientset" where
  "failingClientset err =
     \<lparr>Jobs_Get = (\<lambda>ns name s. (Inl err, s)),
      Jobs_Patch = (\<lambda>ns name data s. (Inl err, s)),
      Jobs_Delete = (\<lambda>ns name s. (Some err, s))\<rparr>"

text \<open>
  A condition list with a \<open>Failed\<close> condition whose status is false, a true condition of
  another type, and then true \<open>Complete\<close> and \<open>Failed\<close> conditions.
\<close>

definition finishedConditions :: "JobCondition list" where
  "finishedConditions =
     [\<lparr>Type = ''Failed'', Status = ''False''\<rparr>,
      \<lparr>Type = ''Suspended'', Status = ''True''\<rparr>,
      \<lparr>Type = ''Complete'', Status = ''True''\<rparr>,
      \<lparr>Type = ''Failed'', Status = ''True''\<rparr>]"

section \<open>Facts shared by the proofs\<close>

lemma ttlInt_guarded:
  "(case Atoi (if raw \<noteq> INil then asString raw else []) of Some n \<Rightarrow> n | None \<Rightarrow> 0) = ttlInt raw"
  by (cases raw) (simp_all add: ttlInt_def asString_def)

lemma Atoi_empty: "Atoi [] = None"
  by (simp add: Atoi_def)

lemma ttlInt_negative_iff: "(ttlInt raw < 0) = (\<exists>n. Atoi (asString raw) = Some n \<and> n < 0)"
  by (cases "Atoi (asString raw)") (simp_all add: ttlInt_def)

lemma conditionsLoop_attemptOutcome_spec: "conditionsLoop ns name cs = attemptOutcome_spec ns name cs"
  by (induction cs) (simp_all add: attemptOutcome_spec_def)

lemmas sample_defs =
  notFound_def memoryClientset_def sampleMeta_def sampleIdParts_def sampleHelpers_def
  sampleJob_def emptyWorld_def worldWith_def sampleDiff_def sampleData_def
  Get_def Delete_def Patch_def ttl_key_def ttlInt_def asString_def Atoi_def
  ForceNew_def Clear_def isStatusNotFound_def

section \<open>The diff rule when the job is missing\<close>

text \<open>
  Claim C1, as amended. The resource has a recorded identifier, the lookup of the job fails
  and \<open>IsNotFound\<close> recognises the error, the old TTL value is not negative, and the old
  and new TTL values differ (each parsed as an integer, 0 when absent or unparseable). Then
  the rule calls \<open>ForceNew\<close> on \<open>spec.0.ttl_seconds_after_finished\<close>, makes no other
  call on the diff, and returns no error.
\<close>

theorem customize_diff_missing_job_ttl_changed:
  assumes "diffId d \<noteq> []"
    and "MainClientset meta = Inr conn"
    and "idParts h (diffId d) = Inr (namespace, name)"
    and "Get conn namespace name w = (Inl err, w')"
    and "IsNotFound h err"
    and "GetChange d ttl_key = (old, new)"
    and "0 \<le> ttlInt old"
    and "ttlInt old \<noteq> ttlInt new"
  shows "resourceKubernetesJobV1CustomizeDiff h d meta w = (None, ForceNew ttl_key d, w')"
  using assms
  by (simp add: resourceKubernetesJobV1CustomizeDiff_def ttlInt_guarded)

text \<open>
  The theorem of C1 at an old TTL of 30 and a new TTL of 5, on the empty store.
\<close>

theorem customize_diff_missing_job_ttl_changed_witness:
  "diffId (sampleDiff (IString ''30'') (IString ''5'')) \<noteq> []
   \<and> MainClientset sampleMeta = Inr memoryClientset
   \<and> idParts sampleHelpers (diffId (sampleDiff (IString ''30'') (IString ''5''))) = Inr (''default'', ''pi'')
   \<and> Get memoryClientset ''default'' ''pi'' emptyWorld
       = (Inl notFound, \<lparr>store = [], requests = [GetRequest ''default'' ''pi'']\<rparr>)
   \<and> IsNotFound sampleHelpers notFound
   \<and> GetChange (sampleDiff (IString ''30'') (IString ''5'')) ttl_key = (IString ''30'', IString ''5'')
   \<and> 0 \<le> ttlInt (IString ''30'')
   \<and> ttlInt (IString ''30'') \<noteq> ttlInt (IString ''5'')
   \<and> resourceKubernetesJobV1CustomizeDiff sampleHelpers (sampleDiff (IString ''30'') (IString ''5''))
         sampleMeta emptyWorld
       = (None,
          \<lparr>diffId = ''default/pi'',
           GetChange = GetChange (sampleDiff (IString ''30'') (IString ''5'')),
           calls = [ForceNewCall ''spec.0.ttl_seconds_after_finished'']\<rparr>,
          \<lparr>store = [], requests = [GetRequest ''default'' ''pi'']\<rparr>)"
  using customize_diff_missing_job_ttl_changed
    [of "sampleDiff (IString ''30'') (IString ''5'')" sampleMeta memoryClientset sampleHelpers
        "''default''" "''pi''" emptyWorld notFound
        "\<lparr>store = [], requests = [GetRequest ''default'' ''pi'']\<rparr>" "IString ''30''" "IString ''5''"]
  by (simp add: sample_defs)

text \<open>
  Claim C1 as stated, for every pair of different TTL values, fails when the old value is
  negative: with an old TTL of \<open>-1\<close>, a new TTL of \<open>5\<close> and the job missing, the rule
  makes no call on the diff at all.
\<close>

theorem customize_diff_missing_job_negative_ttl_changed_counterexample:
  "ttlInt (IString ''-1'') \<noteq> ttlInt (IString ''5'')
   \<and> diffId (sampleDiff (IString ''-1'') (IString ''5'')) \<noteq> []
   \<and> MainClientset sampleMeta = Inr memoryClientset
   \<and> idParts sampleHelpers (diffId (sampleDiff (IString ''-1'') (IString ''5''))) = Inr (''default'', ''pi'')
   \<and> fst (Get memoryClientset ''default'' ''pi'' emptyWorld) = Inl notFound
   \<and> IsNotFound sampleHelpers notFound
   \<and> calls (fst (snd (resourceKubernetesJobV1CustomizeDiff sampleHelpers
         (sampleDiff (IString ''-1'') (IString ''5'')) sampleMeta emptyWorld))) = []"
  by (simp add: resourceKubernetesJobV1CustomizeDiff_def sample_defs)




text \<open>
  Claim C8. The lookup of the job fails, \<open>IsNotFound\<close> recognises the error, and the old
  TTL string parses to a negative integer. Then, whatever the new TTL value is, the rule
  makes no call on the diff (neither \<open>ForceNew\<close> nor \<open>Clear\<close>) and returns no error.
\<close>

theorem customize_diff_missing_job_negative_old_ttl:
  assumes "diffId d \<noteq> []"
    and "MainClientset meta = Inr conn"
    and "idParts h (diffId d) = Inr (namespace, name)"
    and "Get conn namespace name w = (Inl err, w')"
    and "IsNotFound h err"
    and "GetChange d ttl_key = (old, new)"
    and "Atoi (asString old) = Some n"
    and "n < 0"
  shows "resourceKubernetesJobV1CustomizeDiff h d meta w = (None, d, w')"
proof -
  have "ttlInt old < 0"
    using assms(7,8) by (simp add: ttlInt_def)
  then show ?thesis
    using assms(1-6)
    by (simp add: resourceKubernetesJobV1CustomizeDiff_def ttlInt_guarded)
qed

text \<open>
  The theorem of C8 at an old TTL of \<open>-7\<close> and a new TTL of 12, on the empty store.
\<close>

theorem customize_diff_missing_job_negative_old_ttl_witness:
  "diffId (sampleDiff (IString ''-7'') (IString ''12'')) \<noteq> []
   \<and> MainClientset sampleMeta = Inr memoryClientset
   \<and> idParts sampleHelpers (diffId (sampleDiff (IString ''-7'') (IString ''12''))) = Inr (''default'', ''pi'')
   \<and> Get memoryClientset ''default'' ''pi'' emptyWorld
       = (Inl notFound, \<lparr>store = [], requests = [GetRequest ''default'' ''pi'']\<rparr>)
   \<and> IsNotFound sampleHelpers notFound
   \<and> GetChange (sampleDiff (IString ''-7'') (IString ''12'')) ttl_key = (IString ''-7'', IString ''12'')
   \<and> Atoi (asString (IString ''-7'')) = Some (- 7)
   \<and> (- 7 :: int) < 0
   \<and> resourceKubernetesJobV1CustomizeDiff sampleHelpers (sampleDiff (IString ''-7'') (IString ''12''))
         sampleMeta emptyWorld
       = (None, sampleDiff (IString ''-7'') (IString ''12''),
          \<lparr>store = [], requests = [GetRequest ''default'' ''pi'']\<rparr>)"
  using customize_diff_missing_job_negative_old_ttl
    [of "sampleDiff (IString ''-7'') (IString ''12'')" sampleMeta memoryClientset sampleHelpers
        "''default''" "''pi''" emptyWorld notFound
        "\<lparr>store = [], requests = [GetRequest ''default'' ''pi'']\<rparr>" "IString ''-7''" "IString ''12''"
        "- 7"]
  by (simp add: sample_defs)

section \<open>The diff rule when the job exists\<close>

text \<open>
  Claim C3. The resource has a recorded identifier and the lookup of the job succeeds. When
  the old and new TTL values differ (each parsed as an integer, 0 when absent or
  unparseable), the rule calls \<open>ForceNew\<close> on \<open>spec.0.ttl_seconds_after_finished\<close>;
  when they are equal, it leaves the diff as it was. In both cases it returns no error.
\<close>

theorem customize_diff_existing_job:
  assumes "diffId d \<noteq> []"
    and "MainClientset meta = Inr conn"
    and "idParts h (diffId d) = Inr (namespace, name)"
    and "Get conn namespace name w = (Inr job, w')"
    and "GetChange d ttl_key = (old, new)"
  shows "resourceKubernetesJobV1CustomizeDiff h d meta w
           = (None, if ttlInt old \<noteq> ttlInt new then ForceNew ttl_key d else d, w')"
  using assms
  by (simp add: resourceKubernetesJobV1CustomizeDiff_def ttlInt_guarded)

text \<open>
  The theorem of C3 on a store that holds the job: once with TTL values 30 and 5, once with
  30 and 30.
\<close>

theorem customize_diff_existing_job_witness:
  "diffId (sampleDiff (IString ''30'') (IString ''5'')) \<noteq> []
   \<and> diffId (sampleDiff (IString ''30'') (IString ''30'')) \<noteq> []
   \<and> MainClientset sampleMeta = Inr memoryClientset
   \<and> idParts sampleHelpers ''default/pi'' = Inr (''default'', ''pi'')
   \<and> Get memoryClientset ''default'' ''pi'' (worldWith (sampleJob []))
       = (Inr (sampleJob []),
          \<lparr>store = [((''default'', ''pi''), sampleJob [])], requests = [GetRequest ''default'' ''pi'']\<rparr>)
   \<and> ttlInt (IString ''30'') \<noteq> ttlInt (IString ''5'')
   \<and> calls (fst (snd (resourceKubernetesJobV1CustomizeDiff sampleHelpers
         (sampleDiff (IString ''30'') (IString ''5'')) sampleMeta (worldWith (sampleJob [])))))
       = [ForceNewCall ''spec.0.ttl_seconds_after_finished'']
   \<and> fst (resourceKubernetesJobV1CustomizeDiff sampleHelpers
         (sampleDiff (IString ''30'') (IString ''5'')) sampleMeta (worldWith (sampleJob []))) = None
   \<and> resourceKubernetesJobV1CustomizeDiff sampleHelpers
         (sampleDiff (IString ''30'') (IString ''30'')) sampleMeta (worldWith (sampleJob []))
       = (None, sampleDiff (IString ''30'') (IString ''30''),
          \<lparr>store = [((''default'', ''pi''), sampleJob [])], requests = [GetRequest ''default'' ''pi'']\<rparr>)"
  using customize_diff_existing_job
    [of "sampleDiff (IString ''30'') (IString ''5'')" sampleMeta memoryClientset sampleHelpers
        "''default''" "''pi''" "worldWith (sampleJob [])" "sampleJob []"
        "\<lparr>store = [((''default'', ''pi''), sampleJob [])], requests = [GetRequest ''default'' ''pi'']\<rparr>"
        "IString ''30''" "IString ''5''"]
    customize_diff_existing_job
    [of "sampleDiff (IString ''30'') (IString ''30'')" sampleMeta memoryClientset sampleHelpers
        "''default''" "''pi''" "worldWith (sampleJob [])" "sampleJob []"
        "\<lparr>store = [((''default'', ''pi''), sampleJob [])], requests = [GetRequest ''default'' ''pi'']\<rparr>"
        "IString ''30''" "IString ''30''"]
  by (simp add: sample_defs)

section \<open>The completion poller\<close>

text \<open>
  Claim C4. When the fetch gives a job, one attempt of the poller gives what the
  specification says of the job's condition list: only conditions whose status is true
  count, they are scanned in list order, the first of them of type \<open>Complete\<close> or
  \<open>Failed\<close> decides (success for \<open>Complete\<close>, a non-retryable "is in failed state"
  error for \<open>Failed\<close>), and without such a condition the attempt gives the retryable
  "is not in complete state" error.
\<close>

theorem poller_attempt_on_fetched_job:
  assumes "Get conn ns name w = (Inr job, w')"
  shows "retryUntilJobV1IsFinished h conn ns name w
           = (attemptOutcome_spec ns name (Conditions (status job)), w')"
  using assms
  by (simp add: retryUntilJobV1IsFinished_def conditionsLoop_attemptOutcome_spec)

text \<open>
  The theorem of C4 on a job whose conditions are a false \<open>Failed\<close>, a true
  \<open>Suspended\<close>, a true \<open>Complete\<close> and a true \<open>Failed\<close>: the attempt succeeds.
\<close>

theorem poller_attempt_on_fetched_job_witness:
  "Get memoryClientset ''default'' ''pi'' (worldWith (sampleJob finishedConditions))
     = (Inr (sampleJob finishedConditions),
        \<lparr>store = [((''default'', ''pi''), sampleJob finishedConditions)],
         requests = [GetRequest ''default'' ''pi'']\<rparr>)
   \<and> retryUntilJobV1IsFinished sampleHelpers memoryClientset ''default'' ''pi''
         (worldWith (sampleJob finishedConditions))
     = (None,
        \<lparr>store = [((''default'', ''pi''), sampleJob finishedConditions)],
         requests = [GetRequest ''default'' ''pi'']\<rparr>)"
  using poller_attempt_on_fetched_job
    [of memoryClientset "''default''" "''pi''" "worldWith (sampleJob finishedConditions)"
        "sampleJob finishedConditions"
        "\<lparr>store = [((''default'', ''pi''), sampleJob finishedConditions)],
          requests = [GetRequest ''default'' ''pi'']\<rparr>" sampleHelpers]
  by (simp add: sample_defs finishedConditions_def attemptOutcome_spec_def
      ConditionTrue_def JobComplete_def JobFailed_def)

text \<open>
  Claim C5. When the fetch fails, one attempt of the poller ends the polling: with success
  and no error when the error is a status error that \<open>IsNotFound\<close> recognises, and with
  a non-retryable error carrying the fetch error in every other case.
\<close>

theorem poller_attempt_on_failed_fetch:
  assumes "Get conn ns name w = (Inl err, w')"
  shows "retryUntilJobV1IsFinished h conn ns name w
           = (if isStatusNotFound h err then None else Some (NonRetryableError err), w')"
  using assms
  by (simp add: retryUntilJobV1IsFinished_def)

text \<open>
  The theorem of C5 on the empty store (the fetch fails with "not found") and on the
  unreachable store (the fetch fails with another error).
\<close>

theorem poller_attempt_on_failed_fetch_witness:
  "Get memoryClientset ''default'' ''pi'' emptyWorld
     = (Inl notFound, \<lparr>store = [], requests = [GetRequest ''default'' ''pi'']\<rparr>)
   \<and> isStatusNotFound sampleHelpers notFound
   \<and> retryUntilJobV1IsFinished sampleHelpers memoryClientset ''default'' ''pi'' emptyWorld
     = (None, \<lparr>store = [], requests = [GetRequest ''default'' ''pi'']\<rparr>)
   \<and> Get (failingClientset (OtherError ''connection refused'')) ''default'' ''pi'' emptyWorld
     = (Inl (OtherError ''connection refused''),
        \<lparr>store = [], requests = [GetRequest ''default'' ''pi'']\<rparr>)
   \<and> \<not> isStatusNotFound sampleHelpers (OtherError ''connection refused'')
   \<and> retryUntilJobV1IsFinished sampleHelpers (failingClientset (OtherError ''connection refused''))
         ''default'' ''pi'' emptyWorld
     = (Some \<lparr>Err = OtherError ''connection refused'', Retryable = False\<rparr>,
        \<lparr>store = [], requests = [GetRequest ''default'' ''pi'']\<rparr>)"
  using poller_attempt_on_failed_fetch
    [of memoryClientset "''default''" "''pi''" emptyWorld notFound
        "\<lparr>store = [], requests = [GetRequest ''default'' ''pi'']\<rparr>" sampleHelpers]
    poller_attempt_on_failed_fetch
    [of "failingClientset (OtherError ''connection refused'')" "''default''" "''pi''" emptyWorld
        "OtherError ''connection refused''"
        "\<lparr>store = [], requests = [GetRequest ''default'' ''pi'']\<rparr>" sampleHelpers]
  by (simp add: sample_defs failingClientset_def NonRetryableError_def)

section \<open>Update, Delete and Exists on a missing job\<close>

text \<open>
  Claim C6. In an update, the initial \<open>Get\<close> fails and \<open>IsNotFound\<close> recognises the
  error. If the recorded TTL value (parsed as an integer, 0 when absent or unparseable) is
  not negative, the update returns no diagnostics; otherwise it returns the error
  diagnostic "Job ... not found; cannot update because it has been deleted". In both cases
  the recorded data is unchanged and the \<open>Get\<close> is the only request sent.
\<close>

theorem update_of_missing_job:
  assumes "MainClientset meta = Inr conn"
    and "idParts h (dataId d) = Inr (namespace, name)"
    and "Get conn namespace name w = (Inl err, w')"
    and "IsNotFound h err"
  shows "resourceKubernetesJobV1Update h d meta w
           = (Returned (if 0 \<le> ttlInt (dataGet d ttl_key) then []
                        else diag_Errorf (''Job '' @ dataId d @
                               '' not found; cannot update because it has been deleted'')),
              d, w')
         \<and> requests w' = requests w @ [GetRequest namespace name]"
proof -
  have "resourceKubernetesJobV1Update h d meta w
          = (Returned (if 0 \<le> ttlInt (dataGet d ttl_key) then []
                       else diag_Errorf (''Job '' @ dataId d @
                              '' not found; cannot update because it has been deleted'')),
             d, w')"
    using assms by (simp add: resourceKubernetesJobV1Update_def ttlInt_def)
  moreover have "requests w' = requests w @ [GetRequest namespace name]"
    using assms(3) by (auto simp add: Get_def split: prod.splits)
  ultimately show ?thesis by simp
qed

text \<open>
  The theorem of C6 on the empty store, once with a recorded TTL of 30 and once with
  \<open>-3\<close>.
\<close>

theorem update_of_missing_job_witness:
  "MainClientset sampleMeta = Inr memoryClientset
   \<and> idParts sampleHelpers (dataId (sampleData (IString ''30''))) = Inr (''default'', ''pi'')
   \<and> idParts sampleHelpers (dataId (sampleData (IString ''-3''))) = Inr (''default'', ''pi'')
   \<and> Get memoryClientset ''default'' ''pi'' emptyWorld
     = (Inl notFound, \<lparr>store = [], requests = [GetRequest ''default'' ''pi'']\<rparr>)
   \<and> IsNotFound sampleHelpers notFound
   \<and> resourceKubernetesJobV1Update sampleHelpers (sampleData (IString ''30'')) sampleMeta emptyWorld
     = (Returned [], sampleData (IString ''30''),
        \<lparr>store = [], requests = [GetRequest ''default'' ''pi'']\<rparr>)
   \<and> resourceKubernetesJobV1Update sampleHelpers (sampleData (IString ''-3'')) sampleMeta emptyWorld
     = (Returned [ErrorDiagnostic ''Job default/pi not found; cannot update because it has been deleted''],
        sampleData (IString ''-3''),
        \<lparr>store = [], requests = [GetRequest ''default'' ''pi'']\<rparr>)"
  using update_of_missing_job
    [of sampleMeta memoryClientset sampleHelpers "sampleData (IString ''30'')"
        "''default''" "''pi''" emptyWorld notFound
        "\<lparr>store = [], requests = [GetRequest ''default'' ''pi'']\<rparr>"]
    update_of_missing_job
    [of sampleMeta memoryClientset sampleHelpers "sampleData (IString ''-3'')"
        "''default''" "''pi''" emptyWorld notFound
        "\<lparr>store = [], requests = [GetRequest ''default'' ''pi'']\<rparr>"]
  by (simp add: sample_defs diag_Errorf_def)

text \<open>
  Claim C9. In an update whose initial \<open>Get\<close> fails with an error that \<open>IsNotFound\<close>
  recognises, the result is the "has been deleted" error diagnostic exactly when the stored
  TTL string parses to a negative integer; and when no TTL is configured (the stored string
  is empty) the update returns no diagnostics and changes nothing.
\<close>

theorem update_deleted_error_only_on_negative_ttl:
  assumes "MainClientset meta = Inr conn"
    and "idParts h (dataId d) = Inr (namespace, name)"
    and "Get conn namespace name w = (Inl err, w')"
    and "IsNotFound h err"
  shows "(resourceKubernetesJobV1Update h d meta w
            = (Returned (diag_Errorf (''Job '' @ dataId d @
                 '' not found; cannot update because it has been deleted'')), d, w'))
           = (\<exists>n. Atoi (asString (dataGet d ttl_key)) = Some n \<and> n < 0)
         \<and> (asString (dataGet d ttl_key) = []
              \<longrightarrow> resourceKubernetesJobV1Update h d meta w = (Returned [], d, w'))"
proof -
  have neg: "(\<exists>n. Atoi (asString (dataGet d ttl_key)) = Some n \<and> n < 0)
               = (\<not> 0 \<le> ttlInt (dataGet d ttl_key))"
    using ttlInt_negative_iff [of "dataGet d ttl_key"] by auto
  have upd: "resourceKubernetesJobV1Update h d meta w
          = (Returned (if 0 \<le> ttlInt (dataGet d ttl_key) then []
                       else diag_Errorf (''Job '' @ dataId d @
                              '' not found; cannot update because it has been deleted'')),
             d, w')"
    using assms by (simp add: resourceKubernetesJobV1Update_def ttlInt_def)
  have unset: "asString (dataGet d ttl_key) = [] \<Longrightarrow> 0 \<le> ttlInt (dataGet d ttl_key)"
    by (simp add: ttlInt_def Atoi_empty)
  show ?thesis
    unfolding neg upd using unset by (simp add: diag_Errorf_def)
qed

text \<open>
  The theorem of C9 on the empty store with no TTL configured.
\<close>

theorem update_deleted_error_only_on_negative_ttl_witness:
  "MainClientset sampleMeta = Inr memoryClientset
   \<and> idParts sampleHelpers (dataId (sampleData (IString []))) = Inr (''default'', ''pi'')
   \<and> Get memoryClientset ''default'' ''pi'' emptyWorld
     = (Inl notFound, \<lparr>store = [], requests = [GetRequest ''default'' ''pi'']\<rparr>)
   \<and> IsNotFound sampleHelpers notFound
   \<and> asString (dataGet (sampleData (IString [])) ttl_key) = []
   \<and> resourceKubernetesJobV1Update sampleHelpers (sampleData (IString [])) sampleMeta emptyWorld
     = (Returned [], sampleData (IString []),
        \<lparr>store = [], requests = [GetRequest ''default'' ''pi'']\<rparr>)"
  using update_deleted_error_only_on_negative_ttl
    [of sampleMeta memoryClientset sampleHelpers "sampleData (IString [])"
        "''default''" "''pi''" emptyWorld notFound
        "\<lparr>store = [], requests = [GetRequest ''default'' ''pi'']\<rparr>"]
  by (simp add: sample_defs)

text \<open>
  Claim C7. When the store answers the delete request with a "not found" status error, the
  delete operation returns no diagnostics and leaves the recorded data as it was; and when
  the store gives that answer again, a second delete, run on what the first one left,
  returns no diagnostics either.
\<close>

theorem delete_of_absent_job_succeeds:
  assumes "MainClientset meta = Inr conn"
    and "idParts h (dataId d) = Inr (namespace, name)"
    and "Delete conn namespace name w = (Some err, w1)"
    and "isStatusNotFound h err"
  shows "resourceKubernetesJobV1Delete h d meta w = ([], d, w1)
         \<and> (\<forall>err' w2. Delete conn namespace name w1 = (Some err', w2) \<and> isStatusNotFound h err'
              \<longrightarrow> (case resourceKubernetesJobV1Delete h d meta w of
                     (diags, d', w') \<Rightarrow> resourceKubernetesJobV1Delete h d' meta w') = ([], d, w2))"
  using assms
  by (simp add: resourceKubernetesJobV1Delete_def)

text \<open>
  The theorem of C7 on the empty store: two deletes in succession.
\<close>

theorem delete_of_absent_job_succeeds_witness:
  "MainClientset sampleMeta = Inr memoryClientset
   \<and> idParts sampleHelpers (dataId (sampleData (IString ''30''))) = Inr (''default'', ''pi'')
   \<and> Delete memoryClientset ''default'' ''pi'' emptyWorld
     = (Some notFound, \<lparr>store = [], requests = [DeleteRequest ''default'' ''pi'']\<rparr>)
   \<and> isStatusNotFound sampleHelpers notFound
   \<and> Delete memoryClientset ''default'' ''pi''
        \<lparr>store = [], requests = [DeleteRequest ''default'' ''pi'']\<rparr>
     = (Some notFound,
        \<lparr>store = [], requests = [DeleteRequest ''default'' ''pi'', DeleteRequest ''default'' ''pi'']\<rparr>)
   \<and> resourceKubernetesJobV1Delete sampleHelpers (sampleData (IString ''30'')) sampleMeta emptyWorld
     = ([], sampleData (IString ''30''),
        \<lparr>store = [], requests = [DeleteRequest ''default'' ''pi'']\<rparr>)
   \<and> (case resourceKubernetesJobV1Delete sampleHelpers (sampleData (IString ''30'')) sampleMeta emptyWorld of
        (diags, d', w') \<Rightarrow> resourceKubernetesJobV1Delete sampleHelpers d' sampleMeta w')
     = ([], sampleData (IString ''30''),
        \<lparr>store = [], requests = [DeleteRequest ''default'' ''pi'', DeleteRequest ''default'' ''pi'']\<rparr>)"
  using delete_of_absent_job_succeeds
    [of sampleMeta memoryClientset sampleHelpers "sampleData (IString ''30'')"
        "''default''" "''pi''" emptyWorld notFound
        "\<lparr>store = [], requests = [DeleteRequest ''default'' ''pi'']\<rparr>"]
  by (simp add: sample_defs resourceKubernetesJobV1Delete_def)

text \<open>
  Claim C10. The existence check returns \<open>(false, nil)\<close> exactly when the \<open>Get\<close> is
  reached and fails with a status error that \<open>IsNotFound\<close> recognises; when the
  \<open>Get\<close> fails in any other way, the check returns \<open>true\<close> together with that error.
\<close>

theorem exists_reports_absence_only_on_not_found:
  "(fst (resourceKubernetesJobV1Exists h d meta w) = (False, None))
     = (\<exists>conn namespace name err.
          MainClientset meta = Inr conn \<and> idParts h (dataId d) = Inr (namespace, name)
          \<and> fst (Get conn namespace name w) = Inl err \<and> isStatusNotFound h err)
   \<and> (\<forall>conn namespace name err w'.
          MainClientset meta = Inr conn \<and> idParts h (dataId d) = Inr (namespace, name)
          \<and> Get conn namespace name w = (Inl err, w') \<and> \<not> isStatusNotFound h err
          \<longrightarrow> resourceKubernetesJobV1Exists h d meta w = ((True, Some err), w'))"
proof -
  have absent: "(fst (resourceKubernetesJobV1Exists h d meta w) = (False, None))
     = (\<exists>conn namespace name err.
          MainClientset meta = Inr conn \<and> idParts h (dataId d) = Inr (namespace, name)
          \<and> fst (Get conn namespace name w) = Inl err \<and> isStatusNotFound h err)"
  proof (cases "MainClientset meta")
    case (Inl e)
    then show ?thesis by (simp add: resourceKubernetesJobV1Exists_def)
  next
    case (Inr conn)
    show ?thesis
    proof (cases "idParts h (dataId d)")
      case (Inl e)
      with Inr show ?thesis by (simp add: resourceKubernetesJobV1Exists_def)
    next
      case parts: (Inr p)
      obtain namespace name where p: "p = (namespace, name)" by (cases p)
      obtain r w' where g: "Get conn namespace name w = (r, w')"
        by (cases "Get conn namespace name w")
      show ?thesis
        using Inr parts p g
        by (cases r) (simp_all add: resourceKubernetesJobV1Exists_def)
    qed
  qed
  have other: "\<forall>conn namespace name err w'.
          MainClientset meta = Inr conn \<and> idParts h (dataId d) = Inr (namespace, name)
          \<and> Get conn namespace name w = (Inl err, w') \<and> \<not> isStatusNotFound h err
          \<longrightarrow> resourceKubernetesJobV1Exists h d meta w = ((True, Some err), w')"
    by (simp add: resourceKubernetesJobV1Exists_def)
  from absent other show ?thesis by (rule conjI)
qed

text \<open>
  The theorem of C10 on the empty store (the job is reported absent) and on the unreachable
  store (the check returns \<open>true\<close> and the error).
\<close>

theorem exists_reports_absence_only_on_not_found_witness:
  "MainClientset sampleMeta = Inr memoryClientset
   \<and> idParts sampleHelpers (dataId (sampleData (IString ''30''))) = Inr (''default'', ''pi'')
   \<and> fst (Get memoryClientset ''default'' ''pi'' emptyWorld) = Inl notFound
   \<and> isStatusNotFound sampleHelpers notFound
   \<and> fst (resourceKubernetesJobV1Exists sampleHelpers (sampleData (IString ''30'')) sampleMeta emptyWorld)
     = (False, None)
   \<and> MainClientset \<lparr>MainClientset = Inr (failingClientset (OtherError ''connection refused''))\<rparr>
     = Inr (failingClientset (OtherError ''connection refused''))
   \<and> Get (failingClientset (OtherError ''connection refused'')) ''default'' ''pi'' emptyWorld
     = (Inl (OtherError ''connection refused''),
        \<lparr>store = [], requests = [GetRequest ''default'' ''pi'']\<rparr>)
   \<and> \<not> isStatusNotFound sampleHelpers (OtherError ''connection refused'')
   \<and> resourceKubernetesJobV1Exists sampleHelpers (sampleData (IString ''30''))
         \<lparr>MainClientset = Inr (failingClientset (OtherError ''connection refused''))\<rparr> emptyWorld
     = ((True, Some (OtherError ''connection refused'')),
        \<lparr>store = [], requests = [GetRequest ''default'' ''pi'']\<rparr>)"
proof -
  have hyps: "MainClientset sampleMeta = Inr memoryClientset
      \<and> idParts sampleHelpers (dataId (sampleData (IString ''30''))) = Inr (''default'', ''pi'')
      \<and> fst (Get memoryClientset ''default'' ''pi'' emptyWorld) = Inl notFound
      \<and> isStatusNotFound sampleHelpers notFound"
    by (simp add: sample_defs)
  have hyps': "MainClientset \<lparr>MainClientset = Inr (failingClientset (OtherError ''connection refused''))\<rparr>
        = Inr (failingClientset (OtherError ''connection refused''))
      \<and> idParts sampleHelpers (dataId (sampleData (IString ''30''))) = Inr (''default'', ''pi'')
      \<and> Get (failingClientset (OtherError ''connection refused'')) ''default'' ''pi'' emptyWorld
        = (Inl (OtherError ''connection refused''),
           \<lparr>store = [], requests = [GetRequest ''default'' ''pi'']\<rparr>)
      \<and> \<not> isStatusNotFound sampleHelpers (OtherError ''connection refused'')"
    by (simp add: sample_defs failingClientset_def)
  have absent: "fst (resourceKubernetesJobV1Exists sampleHelpers (sampleData (IString ''30''))
                  sampleMeta emptyWorld) = (False, None)"
    using exists_reports_absence_only_on_not_found
      [of sampleHelpers "sampleData (IString ''30'')" sampleMeta emptyWorld] hyps
    by blast
  have other: "resourceKubernetesJobV1Exists sampleHelpers (sampleData (IString ''30''))
         \<lparr>MainClientset = Inr (failingClientset (OtherError ''connection refused''))\<rparr> emptyWorld
     = ((True, Some (OtherError ''connection refused'')),
        \<lparr>store = [], requests = [GetRequest ''default'' ''pi'']\<rparr>)"
    using exists_reports_absence_only_on_not_found
      [of sampleHelpers "sampleData (IString ''30'')"
          "\<lparr>MainClientset = Inr (failingClientset (OtherError ''connection refused''))\<rparr>"
          emptyWorld] hyps'
    by blast
  from hyps hyps' absent other show ?thesis by simp
qed

end
